theory Spec2Isabelle
  imports Main "HOL-Library.Sublist" "HOL-Library.AList"
begin

section \<open>Python strings\<close>

text \<open>
  A Python \<open>str\<close> is modelled as a \<open>string\<close>, the UTF-8 bytes of the text. On a text
  of ASCII characters \<open>str.lower\<close> and \<open>str.title\<close> are written out below. On any
  other text they follow the tables of the Unicode database, which are not part of the
  program: there they are the arguments \<open>unicode_lower\<close> and \<open>unicode_title\<close>, and
  every fact below holds whatever these are.
\<close>

definition is_upper :: "char \<Rightarrow> bool" where
  "is_upper c = (65 \<le> (of_char c :: nat) \<and> (of_char c :: nat) \<le> 90)"

definition is_lower :: "char \<Rightarrow> bool" where
  "is_lower c = (97 \<le> (of_char c :: nat) \<and> (of_char c :: nat) \<le> 122)"

definition to_lower :: "char \<Rightarrow> char" where
  "to_lower c = (if is_upper c then char_of ((of_char c :: nat) + 32) else c)"

definition to_upper :: "char \<Rightarrow> char" where
  "to_upper c = (if is_lower c then char_of ((of_char c :: nat) - 32) else c)"

definition is_ascii :: "char \<Rightarrow> bool" where
  "is_ascii c = ((of_char c :: nat) < 128)"









text \<open>
  \<open>s.title()\<close>: a cased character is made upper case when the character before it is
  not cased, lower case otherwise. The flag says whether the previous character was cased.
\<close>

fun title_from :: "bool \<Rightarrow> string \<Rightarrow> string" where
  "title_from prev [] = []"
| "title_from prev (c # cs) =
     (if is_lower c then (if prev then c else to_upper c) # title_from True cs
      else if is_upper c then (if prev then to_lower c else c) # title_from True cs
      else c # title_from False cs)"

definition title :: "(string \<Rightarrow> string) \<Rightarrow> string \<Rightarrow> string" where
  "title unicode_title s =
     (if list_all is_ascii s then title_from False s else unicode_title s)"



text \<open>\<open>sep.join(xs)\<close>\<close>

fun join :: "string \<Rightarrow> string list \<Rightarrow> string" where
  "join sep [] = []"
| "join sep [x] = x"
| "join sep (x # y # ys) = x @ sep @ join sep (y # ys)"

section \<open>The code converter\<close>

record ConvertRequest =
  source_language :: string
  target_language :: string
  code :: string





section \<open>Python values and documents\<close>

text \<open>
  The values a stored document holds. An \<open>ObjectId\<close> is the number its twelve bytes
  spell; a \<open>datetime\<close> and a \<open>date\<close> are carried by their ISO-8601 text, which is what
  \<open>isoformat()\<close> returns. A document is a Python \<open>dict\<close>: an association list in
  insertion order, whose keys are distinct.
\<close>

datatype pyval =
    PNone
  | PBool bool
  | PInt int
  | PStr string
  | POid nat
  | PDatetime string
  | PDate string

type_synonym doc = "(string \<times> pyval) list"

text \<open>The truth value Python gives a value in \<open>if v:\<close>.\<close>

fun truthy :: "pyval \<Rightarrow> bool" where
  "truthy PNone = False"
| "truthy (PBool b) = b"
| "truthy (PInt i) = (i \<noteq> 0)"
| "truthy (PStr s) = (s \<noteq> [])"
| "truthy (POid n) = True"
| "truthy (PDatetime s) = True"
| "truthy (PDate s) = True"

definition digit_char :: "nat \<Rightarrow> char" where
  "digit_char d = ''0123456789abcdef'' ! (d mod 16)"

fun show_nat :: "nat \<Rightarrow> string" where
  "show_nat n = (if n < 10 then [digit_char n] else show_nat (n div 10) @ [digit_char (n mod 10)])"

declare show_nat.simps [simp del]

definition show_int :: "int \<Rightarrow> string" where
  "show_int i = (if i < 0 then CHR ''-'' # show_nat (nat (- i)) else show_nat (nat i))"

text \<open>The last \<open>k\<close> hexadecimal digits of \<open>n\<close>; an \<open>ObjectId\<close> prints as 24 of them.\<close>

fun hex_from :: "nat \<Rightarrow> nat \<Rightarrow> string" where
  "hex_from 0 n = []"
| "hex_from (Suc k) n = hex_from k (n div 16) @ [digit_char (n mod 16)]"

text \<open>\<open>str(v)\<close>; a \<open>datetime\<close> prints as its ISO text with a space for the \<open>T\<close>.\<close>

fun py_str :: "pyval \<Rightarrow> string" where
  "py_str PNone = ''None''"
| "py_str (PBool b) = (if b then ''True'' else ''False'')"
| "py_str (PInt i) = show_int i"
| "py_str (PStr s) = s"
| "py_str (POid n) = hex_from 24 n"
| "py_str (PDatetime s) =
     take 10 s @ (case drop 10 s of [] \<Rightarrow> [] | c # r \<Rightarrow> CHR '' '' # r)"
| "py_str (PDate s) = s"

text \<open>\<open>d.get(k)\<close> and \<open>d.get(k, default)\<close>\<close>

definition dict_get :: "doc \<Rightarrow> string \<Rightarrow> pyval" where
  "dict_get d k = (case map_of d k of None \<Rightarrow> PNone | Some v \<Rightarrow> v)"

definition dict_get_default :: "doc \<Rightarrow> string \<Rightarrow> pyval \<Rightarrow> pyval" where
  "dict_get_default d k dflt = (case map_of d k of None \<Rightarrow> dflt | Some v \<Rightarrow> v)"

section \<open>Helpers\<close>

text \<open>Both paths of \<open>oid_str\<close> return \<open>str(obj)\<close>.\<close>

definition oid_str :: "pyval \<Rightarrow> string" where
  "oid_str obj = py_str obj"

text \<open>
  One pass of the loop of \<open>serialize_doc\<close> over the snapshot \<open>list(d.items())\<close>: a date
  or datetime value is replaced in \<open>d\<close>, under its key, by its ISO text.
\<close>

fun iso_step :: "string \<times> pyval \<Rightarrow> doc \<Rightarrow> doc" where
  "iso_step (k, PDatetime s) d = AList.update k (PStr s) d"
| "iso_step (k, PDate s) d = AList.update k (PStr s) d"
| "iso_step (k, v) d = d"

text \<open>
  \<open>serialize_doc\<close>. The argument is \<open>None\<close> when a lookup found nothing. A falsy
  argument (\<open>None\<close> or the empty dict) is returned as it is. Otherwise the copy \<open>d\<close>
  loses a truthy \<open>_id\<close> (\<open>pop\<close>) and gets \<open>id\<close>, then the dates are converted.
\<close>

definition serialize_doc :: "doc option \<Rightarrow> doc option" where
  "serialize_doc doc =
     (case doc of
        None \<Rightarrow> None
      | Some d0 \<Rightarrow>
          if d0 = [] then Some d0
          else
            (let d = (if truthy (dict_get d0 ''_id'')
                      then AList.update ''id'' (PStr (oid_str (dict_get d0 ''_id'')))
                             (AList.delete ''_id'' d0)
                      else d0)
             in Some (fold iso_step d d)))"

section \<open>The document store\<close>

text \<open>
  The state of the external database as the handlers see it through \<open>db\<close>: the documents
  of each collection in store order, and the next identifier the store assigns. \<open>db\<close> is
  \<open>None\<close> when no database is configured.
\<close>

record database =
  collections :: "string \<Rightarrow> doc list"
  next_oid :: nat

datatype error =
    HTTPException nat string
  | TypeError
  | NotImplementedError
  | ValidationError
  | StoreUnavailable

text \<open>
  A filter \<open>{k: v, ...}\<close> matches a document whose field \<open>k\<close> equals \<open>v\<close> for each pair;
  the value \<open>None\<close> also matches a missing field.
\<close>

definition doc_matches :: "doc \<Rightarrow> doc \<Rightarrow> bool" where
  "doc_matches flt d = list_all (\<lambda>kv. dict_get d (fst kv) = snd kv) flt"

text \<open>\<open>collection.find_one(filter)\<close>: the first matching document, or \<open>None\<close>.\<close>

definition find_one :: "doc list \<Rightarrow> doc \<Rightarrow> doc option" where
  "find_one docs flt = List.find (doc_matches flt) docs"

text \<open>
  \<open>collection.insert_one(document)\<close>: a document without \<open>_id\<close> gets the next
  identifier; the result is the \<open>inserted_id\<close> and the new state.
\<close>

definition insert_one :: "database \<Rightarrow> string \<Rightarrow> doc \<Rightarrow> pyval \<times> database" where
  "insert_one st cname d =
     (case map_of d ''_id'' of
        None \<Rightarrow>
          (POid (next_oid st),
           st\<lparr>collections := (collections st)
                 (cname := collections st cname @ [(''_id'', POid (next_oid st)) # d]),
              next_oid := Suc (next_oid st)\<rparr>)
      | Some i \<Rightarrow>
          (i, st\<lparr>collections := (collections st)(cname := collections st cname @ [d])\<rparr>))"

text \<open>
  Modelled from the spec: \<open>get_documents\<close> of the module \<open>database\<close>, which is not among
  the sources. Section 4.1: \<open>find(collection_name, filter, limit)\<close> gives an ordered
  sequence of at most \<open>limit\<close> documents matching the filter; an unreachable store is a
  service-unavailable condition.
\<close>

definition get_documents :: "database option \<Rightarrow> string \<Rightarrow> doc \<Rightarrow> nat \<Rightarrow> error + doc list" where
  "get_documents db cname flt limit =
     (case db of
        None \<Rightarrow> Inl StoreUnavailable
      | Some st \<Rightarrow> Inr (take limit (filter (doc_matches flt) (collections st cname))))"

text \<open>
  Modelled from the spec: \<open>create_document\<close> of the module \<open>database\<close>, which is not among
  the sources. Section 4.1: \<open>insert(collection_name, document)\<close> stores the document and
  gives its identifier; section 3: identifiers are assigned by the database, so a
  field \<open>_id\<close> of the document, if it has one, gives way to the assigned one.
\<close>

definition create_document ::
  "database option \<Rightarrow> string \<Rightarrow> doc \<Rightarrow> error + (nat \<times> database option)" where
  "create_document db cname d =
     (case db of
        None \<Rightarrow> Inl StoreUnavailable
      | Some st \<Rightarrow>
          Inr (next_oid st,
               Some (st\<lparr>collections := (collections st)
                          (cname := collections st cname
                             @ [(''_id'', POid (next_oid st)) # AList.delete ''_id'' d]),
                        next_oid := Suc (next_oid st)\<rparr>)))"

text \<open>
  \<open>ObjectId(x)\<close> where \<open>x\<close> is an identifier that \<open>create_document\<close> gave: the
  \<open>ObjectId\<close> of that identifier.
\<close>

definition ObjectId :: "nat \<Rightarrow> pyval" where
  "ObjectId i = POid i"

section \<open>Request and response models\<close>

datatype provider = Email | Google

fun provider_str :: "provider \<Rightarrow> string" where
  "provider_str Email = ''email''"
| "provider_str Google = ''google''"

record SignupRequest =
  signup_name :: string
  signup_email :: string
  signup_provider :: provider

record LoginRequest =
  login_email :: string

record AuthResponse =
  user_id :: string
  name :: string
  email :: string

record ProgressUpdate =
  progress_user_id :: string
  course :: string
  lesson :: string
  completed :: bool

record MentorRequest =
  question :: string
  language :: "string option"
  level :: "string option"

text \<open>
  The constructor of \<open>AuthResponse\<close> validates its fields: \<open>user_id\<close> and \<open>email\<close> are
  strings where it is called, \<open>name\<close> comes from a stored document and has to be one.
\<close>

definition mk_AuthResponse :: "string \<Rightarrow> pyval \<Rightarrow> string \<Rightarrow> error + AuthResponse" where
  "mk_AuthResponse uid nm em =
     (case nm of
        PStr n \<Rightarrow> Inr \<lparr>user_id = uid, name = n, email = em\<rparr>
      | _ \<Rightarrow> Inl ValidationError)"

text \<open>\<open>payload.model_dump()\<close> of a \<open>ProgressUpdate\<close>\<close>

definition model_dump :: "ProgressUpdate \<Rightarrow> doc" where
  "model_dump p =
     [(''user_id'', PStr (progress_user_id p)),
      (''course'', PStr (course p)),
      (''lesson'', PStr (lesson p)),
      (''completed'', PBool (completed p))]"

section \<open>Auth\<close>

text \<open>
  The truth value of \<open>db\<close> in \<open>if db\<close>. \<open>None\<close> is false. The handle of a configured
  database is a \<open>Database\<close> of the driver, which does not implement truth value
  testing: \<open>bool(db)\<close> raises \<open>NotImplementedError\<close>. (\<open>test_database\<close> compares with
  \<open>is not None\<close>.)
\<close>

definition db_truth :: "database option \<Rightarrow> error + bool" where
  "db_truth db = (case db of None \<Rightarrow> Inr False | Some st \<Rightarrow> Inl NotImplementedError)"

text \<open>\<open>db["user"].find_one({"email": e}) if db else None\<close>\<close>

definition find_user :: "database option \<Rightarrow> string \<Rightarrow> error + doc option" where
  "find_user db e =
     (case db_truth db of
        Inl err \<Rightarrow> Inl err
      | Inr b \<Rightarrow>
          if b
          then (case db of
                  None \<Rightarrow> Inl TypeError
                | Some st \<Rightarrow> Inr (find_one (collections st ''user'') [(''email'', PStr e)]))
          else Inr None)"

text \<open>
  \<open>signup\<close>. The two readings of the clock, \<open>t1\<close> and \<open>t2\<close>, are arguments. A found
  document is true in \<open>if existing\<close> unless it is the empty dict. Without a database the
  insertion subscripts \<open>None\<close>, a \<open>TypeError\<close>.
\<close>

definition signup ::
  "database option \<Rightarrow> string \<Rightarrow> string \<Rightarrow> SignupRequest
     \<Rightarrow> error + (AuthResponse \<times> database option)" where
  "signup db t1 t2 payload =
     (let create =
            (case db of
               None \<Rightarrow> Inl TypeError
             | Some st \<Rightarrow>
                 (case insert_one st ''user''
                         [(''name'', PStr (signup_name payload)),
                          (''email'', PStr (signup_email payload)),
                          (''provider'', PStr (provider_str (signup_provider payload))),
                          (''created_at'', PDatetime t1),
                          (''updated_at'', PDatetime t2)] of
                    (inserted_id, st') \<Rightarrow>
                      (case mk_AuthResponse (oid_str inserted_id) (PStr (signup_name payload))
                              (signup_email payload) of
                         Inl e \<Rightarrow> Inl e
                       | Inr r \<Rightarrow> Inr (r, Some st'))))
      in case find_user db (signup_email payload) of
           Inl err \<Rightarrow> Inl err
         | Inr None \<Rightarrow> create
         | Inr (Some ex) \<Rightarrow>
             if ex = [] then create
             else
               (case mk_AuthResponse (oid_str (dict_get ex ''_id''))
                       (dict_get_default ex ''name'' (PStr (signup_name payload)))
                       (signup_email payload) of
                  Inl e \<Rightarrow> Inl e
                | Inr r \<Rightarrow> Inr (r, db)))"

definition login :: "database option \<Rightarrow> LoginRequest \<Rightarrow> error + AuthResponse" where
  "login db payload =
     (let not_found = Inl (HTTPException 404 ''User not found. Please sign up.'')
      in case find_user db (login_email payload) of
           Inl err \<Rightarrow> Inl err
         | Inr None \<Rightarrow> not_found
         | Inr (Some ex) \<Rightarrow>
             if ex = [] then not_found
             else mk_AuthResponse (oid_str (dict_get ex ''_id''))
                    (dict_get_default ex ''name'' (PStr ''User''))
                    (login_email payload))"

section \<open>Progress and ranks\<close>

definition Platinum :: string where
  "Platinum = [CHR 0xF0, CHR 0x9F, CHR 0x8F, CHR 0x86] @ '' Platinum''"

definition Gold :: string where
  "Gold = [CHR 0xF0, CHR 0x9F, CHR 0xA5, CHR 0x87] @ '' Gold''"

definition Silver :: string where
  "Silver = [CHR 0xF0, CHR 0x9F, CHR 0xA5, CHR 0x88] @ '' Silver''"

definition Bronze :: string where
  "Bronze = [CHR 0xF0, CHR 0x9F, CHR 0xA5, CHR 0x89] @ '' Bronze''"

definition Newbie :: string where
  "Newbie = [CHR 0xF0, CHR 0x9F, CHR 0x8E, CHR 0x93] @ '' Newbie''"

text \<open>\<open>sum(1 for i in items if i.get("completed"))\<close>\<close>

definition total_completed :: "doc list \<Rightarrow> int" where
  "total_completed its = int (length (filter (\<lambda>i. truthy (dict_get i ''completed'')) its))"

text \<open>The chain of thresholds of \<open>get_progress\<close>, highest first.\<close>

definition rank_of :: "int \<Rightarrow> string" where
  "rank_of c =
     (if c \<ge> 50 then Platinum
      else if c \<ge> 25 then Gold
      else if c \<ge> 10 then Silver
      else if c \<ge> 3 then Bronze
      else Newbie)"

record ProgressResponse =
  items :: "doc option list"
  completed_total :: int
  rank :: string

definition get_progress :: "database option \<Rightarrow> string \<Rightarrow> error + ProgressResponse" where
  "get_progress db uid =
     (case get_documents db ''progress'' [(''user_id'', PStr uid)] 500 of
        Inl e \<Rightarrow> Inl e
      | Inr its \<Rightarrow>
          Inr \<lparr>items = map (\<lambda>i. serialize_doc (Some i)) its,
               completed_total = total_completed its,
               rank = rank_of (total_completed its)\<rparr>)"

definition update_progress ::
  "database option \<Rightarrow> ProgressUpdate \<Rightarrow> error + (doc option \<times> database option)" where
  "update_progress db payload =
     (case create_document db ''progress'' (model_dump payload) of
        Inl e \<Rightarrow> Inl e
      | Inr (new_id, db') \<Rightarrow>
          (case db' of
             None \<Rightarrow> Inl TypeError
           | Some st \<Rightarrow>
               Inr (serialize_doc
                      (find_one (collections st ''progress'') [(''_id'', ObjectId new_id)]),
                    db')))"

section \<open>The mentor\<close>

definition tips :: "(string \<times> string list) list" where
  "tips =
     [(''beginner'',
       [''Break problems into small steps and write pseudo-code first.'',
        ''Practice daily: tiny consistent sessions beat long rare ones.'',
        ''Read errors carefully; they often tell you exactly what to fix.'']),
      (''intermediate'',
       [''Write tests for edge cases before refactoring.'',
        ''Profile performance before optimizing.'',
        ''Learn your debugger and step through code.'']),
      (''advanced'',
       [''Design for maintainability; prefer clarity over cleverness.'',
        ''Document assumptions and invariants in code.'',
        ''Benchmark with realistic data and environments.''])]"

text \<open>\<open>x or default\<close> on an optional string: \<open>None\<close> and the empty string are falsy.\<close>

definition or_default :: "string option \<Rightarrow> string \<Rightarrow> string" where
  "or_default x dflt = (case x of None \<Rightarrow> dflt | Some s \<Rightarrow> if s = [] then dflt else s)"

definition ai_mentor :: "(string \<Rightarrow> string) \<Rightarrow> MentorRequest \<Rightarrow> string" where
  "ai_mentor unicode_title req =
     (let lang = title unicode_title (or_default (language req) ''programming'');
          lvl = or_default (level req) ''beginner'';
          chosen = (case map_of tips lvl of
                      None \<Rightarrow> (case map_of tips ''beginner'' of None \<Rightarrow> [] | Some t \<Rightarrow> t)
                    | Some t \<Rightarrow> t)
      in ''Here are some '' @ lvl @ '' tips for '' @ lang @ [CHR '':'', CHR 0x0A, CHR ''-'', CHR '' '']
           @ join [CHR 0x0A, CHR ''-'', CHR '' ''] chosen)"

section \<open>The rank table of the specification\<close>

text \<open>
  Section 3 of the specification: the thresholds are inclusive lower bounds, tried
  highest first; below all of them the rank is Newbie. \<open>rank_tier\<close> is the place of a
  label in the order Newbie, Bronze, Silver, Gold, Platinum.
\<close>

definition rank_table :: "(int \<times> string) list" where
  "rank_table = [(50, Platinum), (25, Gold), (10, Silver), (3, Bronze)]"

definition spec_rank :: "int \<Rightarrow> string" where
  "spec_rank c =
     (case List.find (\<lambda>e. c \<ge> fst e) rank_table of
        Some e \<Rightarrow> snd e
      | None \<Rightarrow> Newbie)"

definition rank_tier :: "string \<Rightarrow> nat" where
  "rank_tier l =
     (if l = Platinum then 4 else if l = Gold then 3 else if l = Silver then 2
      else if l = Bronze then 1 else 0)"

section \<open>Serialization, step by step\<close>

text \<open>
  What the loop of \<open>serialize_doc\<close> does to one value and to one entry, and the copy
  \<open>d\<close> after the renaming step; the facts below relate \<open>serialize_doc\<close> to them.
\<close>

fun iso_val :: "pyval \<Rightarrow> pyval" where
  "iso_val (PDatetime s) = PStr s"
| "iso_val (PDate s) = PStr s"
| "iso_val v = v"

definition iso_entry :: "string \<times> pyval \<Rightarrow> string \<times> pyval" where
  "iso_entry kv = (fst kv, iso_val (snd kv))"

text \<open>The copy after the renaming step.\<close>

definition renamed :: "doc \<Rightarrow> doc" where
  "renamed d0 =
     (if truthy (dict_get d0 ''_id'')
      then AList.update ''id'' (PStr (oid_str (dict_get d0 ''_id''))) (AList.delete ''_id'' d0)
      else d0)"

section \<open>Progress entries\<close>

text \<open>
  The entry the store holds for a progress update inserted under the identifier \<open>i\<close>,
  and the database after one such insertion. \<open>full_progress\<close> is the database after 500
  updates of one completed lesson by the user \<open>u1\<close>, starting from nothing.
\<close>

definition progress_entry :: "nat \<Rightarrow> ProgressUpdate \<Rightarrow> doc" where
  "progress_entry i p = (''_id'', POid i) # model_dump p"

definition with_progress :: "database \<Rightarrow> ProgressUpdate \<Rightarrow> database" where
  "with_progress st p =
     st\<lparr>collections := (collections st)
          (''progress'' := collections st ''progress'' @ [progress_entry (next_oid st) p]),
        next_oid := Suc (next_oid st)\<rparr>"

definition lesson_one :: ProgressUpdate where
  "lesson_one =
     \<lparr>progress_user_id = ''u1'', course = ''python'', lesson = ''intro'', completed = True\<rparr>"

definition full_progress :: database where
  "full_progress =
     \<lparr>collections = (\<lambda>c. [])(''progress'' := map (\<lambda>i. progress_entry i lesson_one) [0..<500]),
      next_oid = 500\<rparr>"

section \<open>Facts about strings\<close>
















section \<open>The code converter: same language\<close>




section \<open>The code converter: JavaScript and Python\<close>



section \<open>The mentor: the question is not read\<close>

text \<open>
  Claim C8. \<open>ai_mentor\<close> is a function of the language and the level alone: two requests
  that agree on both get the same answer, whatever their questions are.
\<close>

theorem ai_mentor_ignores_question:
  "language r1 = language r2 \<Longrightarrow> level r1 = level r2 \<Longrightarrow> ai_mentor ut r1 = ai_mentor ut r2"
  by (simp add: ai_mentor_def)

theorem ai_mentor_ignores_question_witness:
  "language \<lparr>question = ''What is a loop?'', language = Some ''python'', level = Some ''advanced''\<rparr>
     = language \<lparr>question = ''zzz'', language = Some ''python'', level = Some ''advanced''\<rparr>
   \<and> level \<lparr>question = ''What is a loop?'', language = Some ''python'', level = Some ''advanced''\<rparr>
     = level \<lparr>question = ''zzz'', language = Some ''python'', level = Some ''advanced''\<rparr>
   \<and> ''What is a loop?'' \<noteq> ''zzz''
   \<and> ai_mentor id \<lparr>question = ''What is a loop?'', language = Some ''python'', level = Some ''advanced''\<rparr>
     = ai_mentor id \<lparr>question = ''zzz'', language = Some ''python'', level = Some ''advanced''\<rparr>"
  using ai_mentor_ignores_question
     [of "\<lparr>question = ''What is a loop?'', language = Some ''python'', level = Some ''advanced''\<rparr>"
         "\<lparr>question = ''zzz'', language = Some ''python'', level = Some ''advanced''\<rparr>" id]
  by simp

section \<open>The code converter: the code is stripped first\<close>



section \<open>Ranks\<close>

lemmas rank_labels = Platinum_def Gold_def Silver_def Bronze_def Newbie_def

lemma rank_of_spec: "rank_of c = spec_rank c"
  by (simp add: rank_of_def spec_rank_def rank_table_def)

lemma rank_tier_rank_of:
  "rank_tier (rank_of c) =
     (if c \<ge> 50 then 4 else if c \<ge> 25 then 3 else if c \<ge> 10 then 2 else if c \<ge> 3 then 1 else 0)"
  by (simp add: rank_of_def rank_tier_def rank_labels)

lemma rank_of_mono: "c \<le> c' \<Longrightarrow> rank_tier (rank_of c) \<le> rank_tier (rank_of c')"
  by (simp add: rank_tier_rank_of)

lemma get_progress_Inr:
  "get_progress db uid = Inr r \<Longrightarrow>
     \<exists>st. db = Some st
       \<and> completed_total r = total_completed
            (take 500 (filter (doc_matches [(''user_id'', PStr uid)]) (collections st ''progress'')))
       \<and> rank r = rank_of (completed_total r)"
  by (auto simp: get_progress_def get_documents_def split: option.splits)

text \<open>
  Claim C1. Whenever \<open>get_progress\<close> returns, its count is the number of entries with
  a true \<open>completed\<close> among the entries read for the user, and its rank is the label the
  table of section 3 gives that count: Platinum from 50, Gold from 25, Silver from 10,
  Bronze from 3, Newbie below. The labels at the counts 2, 3, 9, 10, 24, 25, 49 and 50
  are those of the specification, and a larger count never gets a lower rank. (The
  strings of the code carry an emoji before the name of the rank.)
\<close>

theorem get_progress_rank:
  "(\<forall>db uid r. get_progress db uid = Inr r \<longrightarrow>
       (\<exists>st. db = Some st \<and> completed_total r =
          int (length (filter (\<lambda>i. truthy (dict_get i ''completed''))
            (take 500 (filter (doc_matches [(''user_id'', PStr uid)])
               (collections st ''progress''))))))
       \<and> rank r = spec_rank (completed_total r)
       \<and> (completed_total r = 2 \<longrightarrow> rank r = Newbie)
       \<and> (completed_total r = 3 \<longrightarrow> rank r = Bronze)
       \<and> (completed_total r = 9 \<longrightarrow> rank r = Bronze)
       \<and> (completed_total r = 10 \<longrightarrow> rank r = Silver)
       \<and> (completed_total r = 24 \<longrightarrow> rank r = Silver)
       \<and> (completed_total r = 25 \<longrightarrow> rank r = Gold)
       \<and> (completed_total r = 49 \<longrightarrow> rank r = Gold)
       \<and> (completed_total r = 50 \<longrightarrow> rank r = Platinum))
   \<and> (\<forall>c. rank_of c = (if c \<ge> 50 then Platinum else if c \<ge> 25 then Gold
                         else if c \<ge> 10 then Silver else if c \<ge> 3 then Bronze else Newbie))
   \<and> (\<forall>db uid r db' uid' r'.
         get_progress db uid = Inr r \<and> get_progress db' uid' = Inr r'
         \<and> completed_total r \<le> completed_total r'
         \<longrightarrow> rank_tier (rank r) \<le> rank_tier (rank r'))
   \<and> (\<forall>c c'. c \<le> c' \<longrightarrow> rank_tier (rank_of c) \<le> rank_tier (rank_of c'))"
proof (intro conjI allI impI)
  fix db uid r
  assume g: "get_progress db uid = Inr r"
  from get_progress_Inr [OF g] obtain st where st: "db = Some st"
    and c: "completed_total r = total_completed
            (take 500 (filter (doc_matches [(''user_id'', PStr uid)]) (collections st ''progress'')))"
    and rk: "rank r = rank_of (completed_total r)" by blast
  from st c show "\<exists>st. db = Some st \<and> completed_total r =
          int (length (filter (\<lambda>i. truthy (dict_get i ''completed''))
            (take 500 (filter (doc_matches [(''user_id'', PStr uid)])
               (collections st ''progress'')))))"
    by (simp add: total_completed_def)
  from rk show "rank r = spec_rank (completed_total r)" by (simp add: rank_of_spec)
  { assume "completed_total r = 2" with rk show "rank r = Newbie" by (simp add: rank_of_def) }
  { assume "completed_total r = 3" with rk show "rank r = Bronze" by (simp add: rank_of_def) }
  { assume "completed_total r = 9" with rk show "rank r = Bronze" by (simp add: rank_of_def) }
  { assume "completed_total r = 10" with rk show "rank r = Silver" by (simp add: rank_of_def) }
  { assume "completed_total r = 24" with rk show "rank r = Silver" by (simp add: rank_of_def) }
  { assume "completed_total r = 25" with rk show "rank r = Gold" by (simp add: rank_of_def) }
  { assume "completed_total r = 49" with rk show "rank r = Gold" by (simp add: rank_of_def) }
  { assume "completed_total r = 50" with rk show "rank r = Platinum" by (simp add: rank_of_def) }
next
  fix c show "rank_of c = (if c \<ge> 50 then Platinum else if c \<ge> 25 then Gold
                         else if c \<ge> 10 then Silver else if c \<ge> 3 then Bronze else Newbie)"
    by (simp add: rank_of_def)
next
  fix db uid r db' uid' r'
  assume a: "get_progress db uid = Inr r \<and> get_progress db' uid' = Inr r'
         \<and> completed_total r \<le> completed_total r'"
  then have "rank r = rank_of (completed_total r)" "rank r' = rank_of (completed_total r')"
    using get_progress_Inr by blast+
  with a show "rank_tier (rank r) \<le> rank_tier (rank r')" by (simp add: rank_of_mono)
next
  fix c c' :: int assume "c \<le> c'"
  then show "rank_tier (rank_of c) \<le> rank_tier (rank_of c')" by (rule rank_of_mono)
qed

theorem get_progress_rank_witness:
  "(case get_progress
           (Some \<lparr>collections = (\<lambda>c. [])(''progress'' :=
                     [[(''_id'', POid 1), (''user_id'', PStr ''u1''), (''lesson'', PStr ''a''),
                       (''completed'', PBool True)],
                      [(''_id'', POid 2), (''user_id'', PStr ''u2''), (''lesson'', PStr ''a''),
                       (''completed'', PBool True)],
                      [(''_id'', POid 3), (''user_id'', PStr ''u1''), (''lesson'', PStr ''b''),
                       (''completed'', PBool True)],
                      [(''_id'', POid 4), (''user_id'', PStr ''u1''), (''lesson'', PStr ''c''),
                       (''completed'', PBool False)],
                      [(''_id'', POid 5), (''user_id'', PStr ''u1''), (''lesson'', PStr ''c''),
                       (''completed'', PBool True)]]),
                   next_oid = 6\<rparr>) ''u1'' of
      Inl e \<Rightarrow> False
    | Inr r \<Rightarrow> completed_total r = 3 \<and> rank r = Bronze \<and> rank r = spec_rank 3)"
proof -
  let ?db = "Some \<lparr>collections = (\<lambda>c. [])(''progress'' :=
                     [[(''_id'', POid 1), (''user_id'', PStr ''u1''), (''lesson'', PStr ''a''),
                       (''completed'', PBool True)],
                      [(''_id'', POid 2), (''user_id'', PStr ''u2''), (''lesson'', PStr ''a''),
                       (''completed'', PBool True)],
                      [(''_id'', POid 3), (''user_id'', PStr ''u1''), (''lesson'', PStr ''b''),
                       (''completed'', PBool True)],
                      [(''_id'', POid 4), (''user_id'', PStr ''u1''), (''lesson'', PStr ''c''),
                       (''completed'', PBool False)],
                      [(''_id'', POid 5), (''user_id'', PStr ''u1''), (''lesson'', PStr ''c''),
                       (''completed'', PBool True)]]),
                   next_oid = 6\<rparr>"
  have "\<exists>r. get_progress ?db ''u1'' = Inr r \<and> completed_total r = 3"
    by (simp add: get_progress_def get_documents_def doc_matches_def dict_get_def
        total_completed_def)
  then obtain r where g: "get_progress ?db ''u1'' = Inr r" and c: "completed_total r = 3"
    by blast
  from get_progress_rank g have "rank r = spec_rank (completed_total r)"
    and "completed_total r = 3 \<longrightarrow> rank r = Bronze" by blast+
  with g c show ?thesis by simp
qed

section \<open>Serialization\<close>

lemma iso_val_idem: "iso_val (iso_val v) = iso_val v"
  by (cases v) simp_all

lemma falsy_iso_val: "\<not> truthy v \<Longrightarrow> iso_val v = v"
  by (cases v) simp_all

lemma update_past_prefix:
  "k \<notin> fst ` set ys \<Longrightarrow> AList.update k v (ys @ zs) = ys @ AList.update k v zs"
  by (induction ys) auto

lemma iso_step_at:
  "k \<notin> fst ` set ys \<Longrightarrow> iso_step (k, v) (ys @ (k, v) # zs) = ys @ (k, iso_val v) # zs"
  by (cases v) (simp_all add: update_past_prefix)

lemma fold_iso_step_suffix:
  "distinct (map fst (ys @ xs)) \<Longrightarrow> fold iso_step xs (ys @ xs) = ys @ map iso_entry xs"
proof (induction xs arbitrary: ys)
  case Nil
  then show ?case by simp
next
  case (Cons kv xs)
  obtain k v where kv: "kv = (k, v)" by (cases kv)
  from Cons.prems kv have nk: "k \<notin> fst ` set ys" by auto
  from Cons.prems kv have d: "distinct (map fst ((ys @ [(k, iso_val v)]) @ xs))" by auto
  have "fold iso_step (kv # xs) (ys @ kv # xs) = fold iso_step xs ((ys @ [(k, iso_val v)]) @ xs)"
    using iso_step_at [OF nk, of v xs] kv by simp
  also have "\<dots> = (ys @ [(k, iso_val v)]) @ map iso_entry xs"
    using Cons.IH [OF d] .
  finally show ?case using kv by (simp add: iso_entry_def)
qed

lemma fold_iso_step: "distinct (map fst d) \<Longrightarrow> fold iso_step d d = map iso_entry d"
  using fold_iso_step_suffix [of "[]" d] by simp

lemma map_fst_iso: "map fst (map iso_entry d) = map fst d"
  by (simp add: iso_entry_def)

lemma map_of_iso: "map_of (map iso_entry d) k = map_option iso_val (map_of d k)"
  by (induction d) (auto simp: iso_entry_def)

lemma dict_get_iso: "dict_get (map iso_entry d) k = iso_val (dict_get d k)"
  by (simp add: dict_get_def map_of_iso split: option.splits)

lemma map_iso_idem: "map iso_entry (map iso_entry d) = map iso_entry d"
  by (simp add: iso_entry_def iso_val_idem)

lemma distinct_renamed: "distinct (map fst d) \<Longrightarrow> distinct (map fst (renamed d))"
  by (simp add: renamed_def distinct_update distinct_delete)

lemma serialize_doc_Some:
  assumes "distinct (map fst d)"
  shows "serialize_doc (Some d) = Some (map iso_entry (renamed d))"
proof (cases "d = []")
  case True
  then show ?thesis by (simp add: serialize_doc_def renamed_def dict_get_def)
next
  case False
  then show ?thesis
    using fold_iso_step [OF distinct_renamed [OF assms]]
    by (simp add: serialize_doc_def renamed_def Let_def)
qed

lemma falsy_id_renamed: "\<not> truthy (dict_get (map iso_entry (renamed d)) ''_id'')"
proof (cases "truthy (dict_get d ''_id'')")
  case True
  then have "map_of (renamed d) ''_id'' = None"
    by (simp add: renamed_def update_conv' delete_conv')
  then show ?thesis by (simp add: dict_get_def map_of_iso)
next
  case False
  then show ?thesis by (simp add: renamed_def dict_get_iso falsy_iso_val)
qed

lemma serialize_doc_twice:
  assumes "distinct (map fst d)"
  shows "serialize_doc (serialize_doc (Some d)) = serialize_doc (Some d)"
proof -
  let ?r = "map iso_entry (renamed d)"
  have dr: "distinct (map fst ?r)"
    using distinct_renamed [OF assms] by (simp only: map_fst_iso)
  have rr: "renamed ?r = ?r" using falsy_id_renamed [of d] by (simp add: renamed_def)
  have "serialize_doc (Some ?r) = Some (map iso_entry (renamed ?r))"
    by (rule serialize_doc_Some [OF dr])
  also have "\<dots> = Some ?r" by (simp only: rr map_iso_idem)
  finally show ?thesis by (simp only: serialize_doc_Some [OF assms])
qed

text \<open>
  Claim C3. Serializing a serialized document changes nothing, for every document (a
  dict, so with distinct keys); an absent document (\<open>None\<close>) and the empty document
  are returned as they are, without an error.
\<close>

theorem serialize_doc_idempotent:
  "(\<forall>d. distinct (map fst d) \<longrightarrow>
        serialize_doc (serialize_doc (Some d)) = serialize_doc (Some d))
   \<and> serialize_doc (serialize_doc None) = serialize_doc None
   \<and> serialize_doc None = None
   \<and> serialize_doc (Some []) = Some []"
  using serialize_doc_twice by (simp add: serialize_doc_def)

theorem serialize_doc_idempotent_witness:
  "distinct (map fst [(''_id'', POid 255), (''name'', PStr ''Ann''),
                      (''created_at'', PDatetime ''2024-01-02T03:04:05'')])
   \<and> serialize_doc (Some [(''_id'', POid 255), (''name'', PStr ''Ann''),
                           (''created_at'', PDatetime ''2024-01-02T03:04:05'')])
       = Some [(''name'', PStr ''Ann''), (''created_at'', PStr ''2024-01-02T03:04:05''),
               (''id'', PStr ''0000000000000000000000ff'')]
   \<and> serialize_doc (Some [(''name'', PStr ''Ann''), (''created_at'', PStr ''2024-01-02T03:04:05''),
                           (''id'', PStr ''0000000000000000000000ff'')])
       = Some [(''name'', PStr ''Ann''), (''created_at'', PStr ''2024-01-02T03:04:05''),
               (''id'', PStr ''0000000000000000000000ff'')]"
proof -
  let ?d = "[(''_id'', POid 255), (''name'', PStr ''Ann''),
             (''created_at'', PDatetime ''2024-01-02T03:04:05'')]"
  have d: "distinct (map fst ?d)" by simp
  have e: "serialize_doc (Some ?d)
       = Some [(''name'', PStr ''Ann''), (''created_at'', PStr ''2024-01-02T03:04:05''),
               (''id'', PStr ''0000000000000000000000ff'')]"
    by code_simp
  from serialize_doc_idempotent d
  have "serialize_doc (serialize_doc (Some ?d)) = serialize_doc (Some ?d)" by blast
  with d e show ?thesis by simp
qed

text \<open>
  Claim C10. For a document that has the key \<open>_id\<close>: when its value is falsy, the
  renaming step is skipped, the output keeps \<open>_id\<close> with the same value and has
  exactly the keys of the input, so no \<open>id\<close> is gained; when its value is truthy, the
  output has no \<open>_id\<close> and has \<open>id\<close>, the string \<open>str\<close> of that value.
\<close>

theorem serialize_doc_id_field:
  "distinct (map fst d) \<Longrightarrow> map_of d ''_id'' = Some v \<Longrightarrow>
     (\<not> truthy v \<longrightarrow>
        (\<exists>r. serialize_doc (Some d) = Some r
             \<and> map_of r ''_id'' = Some v \<and> map fst r = map fst d))
     \<and> (truthy v \<longrightarrow>
        (\<exists>r. serialize_doc (Some d) = Some r
             \<and> map_of r ''_id'' = None \<and> map_of r ''id'' = Some (PStr (py_str v))))"
proof (intro conjI impI)
  assume d: "distinct (map fst d)" and m: "map_of d ''_id'' = Some v"
  from m have g: "dict_get d ''_id'' = v" by (simp add: dict_get_def)
  {
    assume f: "\<not> truthy v"
    with g have "renamed d = d" by (simp add: renamed_def)
    with serialize_doc_Some [OF d] have "serialize_doc (Some d) = Some (map iso_entry d)"
      by simp
    moreover from m f have "map_of (map iso_entry d) ''_id'' = Some v"
      by (simp add: map_of_iso falsy_iso_val)
    ultimately show "\<exists>r. serialize_doc (Some d) = Some r
             \<and> map_of r ''_id'' = Some v \<and> map fst r = map fst d"
      using map_fst_iso [of d] by blast
  }
  {
    assume t: "truthy v"
    with g have r: "renamed d
        = AList.update ''id'' (PStr (py_str v)) (AList.delete ''_id'' d)"
      by (simp add: renamed_def oid_str_def)
    have "map_of (map iso_entry (renamed d)) ''_id'' = None"
      by (simp add: r map_of_iso update_conv' delete_conv')
    moreover have "map_of (map iso_entry (renamed d)) ''id'' = Some (PStr (py_str v))"
      by (simp add: r map_of_iso update_conv')
    ultimately show "\<exists>r. serialize_doc (Some d) = Some r
             \<and> map_of r ''_id'' = None \<and> map_of r ''id'' = Some (PStr (py_str v))"
      using serialize_doc_Some [OF d] by blast
  }
qed

theorem serialize_doc_id_field_witness:
  "distinct (map fst [(''_id'', PInt 0), (''title'', PStr ''t'')])
   \<and> map_of [(''_id'', PInt 0), (''title'', PStr ''t'')] ''_id'' = Some (PInt 0)
   \<and> \<not> truthy (PInt 0) \<and> \<not> truthy PNone \<and> \<not> truthy (PStr [])
   \<and> serialize_doc (Some [(''_id'', PInt 0), (''title'', PStr ''t'')])
       = Some [(''_id'', PInt 0), (''title'', PStr ''t'')]
   \<and> distinct (map fst [(''_id'', PStr ''abc''), (''title'', PStr ''t'')])
   \<and> map_of [(''_id'', PStr ''abc''), (''title'', PStr ''t'')] ''_id'' = Some (PStr ''abc'')
   \<and> truthy (PStr ''abc'')
   \<and> serialize_doc (Some [(''_id'', PStr ''abc''), (''title'', PStr ''t'')])
       = Some [(''title'', PStr ''t''), (''id'', PStr ''abc'')]"
proof -
  let ?f = "[(''_id'', PInt 0), (''title'', PStr ''t'')]"
  let ?t = "[(''_id'', PStr ''abc''), (''title'', PStr ''t'')]"
  have df: "distinct (map fst ?f)" and mf: "map_of ?f ''_id'' = Some (PInt 0)" by simp_all
  have dt: "distinct (map fst ?t)" and mt: "map_of ?t ''_id'' = Some (PStr ''abc'')" by simp_all
  from serialize_doc_id_field [OF df mf]
  obtain r where r: "serialize_doc (Some ?f) = Some r" "map_of r ''_id'' = Some (PInt 0)"
    "map fst r = map fst ?f" by auto
  from serialize_doc_id_field [OF dt mt]
  obtain q where q: "serialize_doc (Some ?t) = Some q" "map_of q ''_id'' = None"
    "map_of q ''id'' = Some (PStr ''abc'')" by auto
  have ef: "serialize_doc (Some ?f) = Some ?f"
    by (simp add: serialize_doc_def dict_get_def)
  have et: "serialize_doc (Some ?t) = Some [(''title'', PStr ''t''), (''id'', PStr ''abc'')]"
    by (simp add: serialize_doc_def dict_get_def oid_str_def)
  from df mf dt mt ef et r q show ?thesis by simp
qed

section \<open>Signup and login\<close>

lemma find_user_database: "find_user (Some st) e = Inl NotImplementedError"
  by (simp add: find_user_def db_truth_def)

lemma find_user_no_database: "find_user None e = Inr None"
  by (simp add: find_user_def db_truth_def)

text \<open>
  Claim C5 is not what the code does. With a configured database \<open>signup\<close> fails in
  \<open>if db\<close>, before the lookup: also when a record with the email is stored, as for
  \<open>ann@x.org\<close> below, no record is returned. Without a database nothing is found and
  the insertion fails.
\<close>

theorem signup_raises_on_database:
  "find_one
     (collections
        \<lparr>collections = (\<lambda>c. [])(''user'' :=
           [[(''_id'', POid 1), (''name'', PStr ''Ann''), (''email'', PStr ''ann@x.org''),
             (''provider'', PStr ''email'')]]), next_oid = 2\<rparr> ''user'')
     [(''email'', PStr ''ann@x.org'')]
     = Some [(''_id'', POid 1), (''name'', PStr ''Ann''), (''email'', PStr ''ann@x.org''),
             (''provider'', PStr ''email'')]
   \<and> signup
        (Some \<lparr>collections = (\<lambda>c. [])(''user'' :=
           [[(''_id'', POid 1), (''name'', PStr ''Ann''), (''email'', PStr ''ann@x.org''),
             (''provider'', PStr ''email'')]]), next_oid = 2\<rparr>)
        ''2024-01-01T00:00:00'' ''2024-01-01T00:00:01''
        \<lparr>signup_name = ''Bob'', signup_email = ''ann@x.org'', signup_provider = Google\<rparr>
     = Inl NotImplementedError
   \<and> (\<forall>st t1 t2 p. signup (Some st) t1 t2 p = Inl NotImplementedError)
   \<and> (\<forall>t1 t2 p. signup None t1 t2 p = Inl TypeError)"
  by (simp add: signup_def Let_def find_user_database find_user_no_database find_one_def
      doc_matches_def dict_get_def)

text \<open>
  Claim C7 is not what the code does. With a configured database \<open>login\<close> fails in
  \<open>if db\<close>, before the lookup: when no record matches the email the failure is not the
  status 404, and when a record matches, as for \<open>ann@x.org\<close> below, it is not returned.
  Only without a database does \<open>login\<close> answer 404.
\<close>

theorem login_raises_on_database:
  "login (Some \<lparr>collections = (\<lambda>c. []), next_oid = 0\<rparr>) \<lparr>login_email = ''bob@x.org''\<rparr>
     = Inl NotImplementedError
   \<and> find_one
       (collections
          \<lparr>collections = (\<lambda>c. [])(''user'' :=
             [[(''_id'', POid 1), (''name'', PStr ''Ann''), (''email'', PStr ''ann@x.org''),
               (''provider'', PStr ''email'')]]), next_oid = 2\<rparr> ''user'')
       [(''email'', PStr ''ann@x.org'')]
       = Some [(''_id'', POid 1), (''name'', PStr ''Ann''), (''email'', PStr ''ann@x.org''),
               (''provider'', PStr ''email'')]
   \<and> login
        (Some \<lparr>collections = (\<lambda>c. [])(''user'' :=
           [[(''_id'', POid 1), (''name'', PStr ''Ann''), (''email'', PStr ''ann@x.org''),
             (''provider'', PStr ''email'')]]), next_oid = 2\<rparr>)
        \<lparr>login_email = ''ann@x.org''\<rparr>
     = Inl NotImplementedError
   \<and> (\<forall>st p. login (Some st) p = Inl NotImplementedError)
   \<and> (\<forall>p. login None p = Inl (HTTPException 404 ''User not found. Please sign up.''))"
  by (simp add: login_def Let_def find_user_database find_user_no_database find_one_def
      doc_matches_def dict_get_def)

section \<open>Progress updates\<close>

lemma user_filter:
  "doc_matches [(''user_id'', PStr u)] (progress_entry i p) \<longleftrightarrow> progress_user_id p = u"
  by (auto simp: doc_matches_def dict_get_def progress_entry_def model_dump_def)

lemma entry_completed:
  "truthy (dict_get (progress_entry i p) ''completed'') \<longleftrightarrow> completed p"
  by (simp add: dict_get_def progress_entry_def model_dump_def)

lemma progress_entry_neq: "progress_entry i p = progress_entry j q \<Longrightarrow> i = j"
  by (simp add: progress_entry_def)

lemma update_progress_Some:
  "\<exists>s. update_progress (Some st) p = Inr (s, Some (with_progress st p))"
  by (simp add: update_progress_def create_document_def ObjectId_def model_dump_def
      with_progress_def progress_entry_def)

lemma with_progress_twice:
  "collections (with_progress (with_progress st p) p) ''progress''
     = collections st ''progress''
         @ [progress_entry (next_oid st) p, progress_entry (Suc (next_oid st)) p]"
  by (simp add: with_progress_def)

lemma with_progress_others:
  "c \<noteq> ''progress'' \<Longrightarrow> collections (with_progress st p) c = collections st c"
  by (simp add: with_progress_def)

lemma get_progress_Some:
  "\<exists>r. get_progress (Some st) u = Inr r
      \<and> completed_total r = total_completed
           (take 500 (filter (doc_matches [(''user_id'', PStr u)]) (collections st ''progress'')))"
  by (simp add: get_progress_def get_documents_def)

lemma total_completed_append:
  "total_completed (xs @ ys) = total_completed xs + total_completed ys"
  by (simp add: total_completed_def)

lemma count_after_two:
  assumes c: "completed p"
    and n: "length (filter (doc_matches [(''user_id'', PStr (progress_user_id p))])
              (collections st ''progress'')) \<le> 498"
  shows "total_completed (take 500 (filter (doc_matches [(''user_id'', PStr (progress_user_id p))])
            (collections (with_progress (with_progress st p) p) ''progress'')))
         = total_completed (take 500 (filter (doc_matches [(''user_id'', PStr (progress_user_id p))])
            (collections st ''progress''))) + 2"
proof -
  let ?m = "doc_matches [(''user_id'', PStr (progress_user_id p))]"
  let ?xs = "filter ?m (collections st ''progress'')"
  let ?new = "[progress_entry (next_oid st) p, progress_entry (Suc (next_oid st)) p]"
  have f: "filter ?m (collections (with_progress (with_progress st p) p) ''progress'') = ?xs @ ?new"
    by (simp add: with_progress_twice user_filter)
  from n have t1: "take 500 (?xs @ ?new) = ?xs @ ?new" by simp
  from n have t0: "take 500 ?xs = ?xs" by simp
  from c have "total_completed ?new = 2" by (simp add: total_completed_def entry_completed)
  then show ?thesis by (simp only: f t1 t0 total_completed_append)
qed

lemma count_capped:
  assumes n: "length (filter (doc_matches [(''user_id'', PStr u)]) (collections st ''progress''))
              \<ge> 500"
  shows "take 500 (filter (doc_matches [(''user_id'', PStr u)])
            (collections (with_progress (with_progress st p) p) ''progress''))
         = take 500 (filter (doc_matches [(''user_id'', PStr u)]) (collections st ''progress''))"
  using n by (simp add: with_progress_twice)

text \<open>
  Claim C6, as the code has it. \<open>update_progress\<close> on a database always succeeds and
  appends one entry, leaving the stored entries as they were: two calls with the same
  payload leave the collection as it was followed by two entries, which differ in their
  identifiers. A following \<open>get_progress\<close> of that user counts both when the payload
  says completed and the user had at most 498 entries before, since \<open>get_progress\<close>
  reads at most 500.
\<close>

theorem update_progress_appends:
  "\<exists>s1 s2. update_progress (Some st) p = Inr (s1, Some (with_progress st p))
     \<and> update_progress (Some (with_progress st p)) p
         = Inr (s2, Some (with_progress (with_progress st p) p))
     \<and> collections (with_progress (with_progress st p) p) ''progress''
         = collections st ''progress''
             @ [(''_id'', POid (next_oid st)) # model_dump p,
                (''_id'', POid (Suc (next_oid st))) # model_dump p]
     \<and> (''_id'', POid (next_oid st)) # model_dump p
         \<noteq> (''_id'', POid (Suc (next_oid st))) # model_dump p
     \<and> (completed p
         \<and> length (filter (doc_matches [(''user_id'', PStr (progress_user_id p))])
              (collections st ''progress'')) \<le> 498
        \<longrightarrow> (\<exists>r0 r2. get_progress (Some st) (progress_user_id p) = Inr r0
               \<and> get_progress (Some (with_progress (with_progress st p) p)) (progress_user_id p)
                   = Inr r2
               \<and> completed_total r2 = completed_total r0 + 2))"
proof -
  obtain s1 where s1: "update_progress (Some st) p = Inr (s1, Some (with_progress st p))"
    using update_progress_Some by blast
  obtain s2 where s2: "update_progress (Some (with_progress st p)) p
         = Inr (s2, Some (with_progress (with_progress st p) p))"
    using update_progress_Some by blast
  have a: "collections (with_progress (with_progress st p) p) ''progress''
         = collections st ''progress''
             @ [(''_id'', POid (next_oid st)) # model_dump p,
                (''_id'', POid (Suc (next_oid st))) # model_dump p]"
    by (simp add: with_progress_twice progress_entry_def)
  have d: "(''_id'', POid (next_oid st)) # model_dump p
         \<noteq> (''_id'', POid (Suc (next_oid st))) # model_dump p" by simp
  have g: "completed p
         \<and> length (filter (doc_matches [(''user_id'', PStr (progress_user_id p))])
              (collections st ''progress'')) \<le> 498
        \<longrightarrow> (\<exists>r0 r2. get_progress (Some st) (progress_user_id p) = Inr r0
               \<and> get_progress (Some (with_progress (with_progress st p) p)) (progress_user_id p)
                   = Inr r2
               \<and> completed_total r2 = completed_total r0 + 2)"
  proof
    assume h: "completed p
         \<and> length (filter (doc_matches [(''user_id'', PStr (progress_user_id p))])
              (collections st ''progress'')) \<le> 498"
    obtain r0 where r0: "get_progress (Some st) (progress_user_id p) = Inr r0"
      "completed_total r0 = total_completed
           (take 500 (filter (doc_matches [(''user_id'', PStr (progress_user_id p))])
              (collections st ''progress'')))"
      using get_progress_Some by blast
    obtain r2 where r2: "get_progress (Some (with_progress (with_progress st p) p))
           (progress_user_id p) = Inr r2"
      "completed_total r2 = total_completed
           (take 500 (filter (doc_matches [(''user_id'', PStr (progress_user_id p))])
              (collections (with_progress (with_progress st p) p) ''progress'')))"
      using get_progress_Some by blast
    from h have "completed_total r2 = completed_total r0 + 2"
      using count_after_two [of p st] r0(2) r2(2) by simp
    with r0(1) r2(1) show "\<exists>r0 r2. get_progress (Some st) (progress_user_id p) = Inr r0
               \<and> get_progress (Some (with_progress (with_progress st p) p)) (progress_user_id p)
                   = Inr r2
               \<and> completed_total r2 = completed_total r0 + 2" by blast
  qed
  from s1 s2 a d g show ?thesis by blast
qed

theorem update_progress_appends_witness:
  "completed lesson_one
   \<and> length (filter (doc_matches [(''user_id'', PStr (progress_user_id lesson_one))])
        (collections \<lparr>collections = (\<lambda>c. []), next_oid = 0\<rparr> ''progress'')) \<le> 498
   \<and> collections (with_progress (with_progress \<lparr>collections = (\<lambda>c. []), next_oid = 0\<rparr>
          lesson_one) lesson_one) ''progress''
       = [(''_id'', POid 0) # model_dump lesson_one, (''_id'', POid 1) # model_dump lesson_one]
   \<and> map_sum id completed_total
        (get_progress (Some \<lparr>collections = (\<lambda>c. []), next_oid = 0\<rparr>) ''u1'') = Inr 0
   \<and> map_sum id completed_total
        (get_progress (Some (with_progress (with_progress \<lparr>collections = (\<lambda>c. []), next_oid = 0\<rparr>
            lesson_one) lesson_one)) ''u1'') = Inr 2"
proof -
  let ?st = "\<lparr>collections = (\<lambda>c. []), next_oid = 0\<rparr>"
  have c: "completed lesson_one" and u: "progress_user_id lesson_one = ''u1''"
    by (simp_all add: lesson_one_def)
  have n: "length (filter (doc_matches [(''user_id'', PStr (progress_user_id lesson_one))])
        (collections ?st ''progress'')) \<le> 498" by simp
  from update_progress_appends [of ?st lesson_one] c n
  obtain r0 r2 where a: "collections (with_progress (with_progress ?st lesson_one) lesson_one)
         ''progress''
         = collections ?st ''progress''
             @ [(''_id'', POid (next_oid ?st)) # model_dump lesson_one,
                (''_id'', POid (Suc (next_oid ?st))) # model_dump lesson_one]"
    and r0: "get_progress (Some ?st) (progress_user_id lesson_one) = Inr r0"
    and r2: "get_progress (Some (with_progress (with_progress ?st lesson_one) lesson_one))
               (progress_user_id lesson_one) = Inr r2"
    and t: "completed_total r2 = completed_total r0 + 2"
    by blast
  have "get_progress (Some ?st) ''u1'' = Inr \<lparr>items = [], completed_total = 0, rank = Newbie\<rparr>"
    by (simp add: get_progress_def get_documents_def total_completed_def rank_of_def)
  with r0 u have "r0 = \<lparr>items = [], completed_total = 0, rank = Newbie\<rparr>" by simp
  then have z: "completed_total r0 = 0" by simp
  from c n a r0 r2 t z u show ?thesis by simp
qed

lemma full_progress_filter:
  "filter (doc_matches [(''user_id'', PStr ''u1'')]) (collections full_progress ''progress'')
     = collections full_progress ''progress''"
  by (simp add: full_progress_def user_filter lesson_one_def)

lemma full_progress_length: "length (collections full_progress ''progress'') = 500"
  by (simp add: full_progress_def)

lemma full_progress_total: "total_completed (collections full_progress ''progress'') = 500"
  by (simp add: full_progress_def total_completed_def entry_completed lesson_one_def)

text \<open>
  Claim C6 as the specification words it (the completed total reflects both entries,
  for every payload) fails for a user who already has 500 entries: two more are stored,
  502 in all, and \<open>get_progress\<close> still reports 500.
\<close>

theorem update_progress_counterexample:
  "map_sum id snd (update_progress (Some full_progress) lesson_one)
     = Inr (Some (with_progress full_progress lesson_one))
   \<and> map_sum id snd (update_progress (Some (with_progress full_progress lesson_one)) lesson_one)
     = Inr (Some (with_progress (with_progress full_progress lesson_one) lesson_one))
   \<and> length (collections full_progress ''progress'') = 500
   \<and> length (collections (with_progress (with_progress full_progress lesson_one) lesson_one)
        ''progress'') = 502
   \<and> map_sum id completed_total (get_progress (Some full_progress) ''u1'') = Inr 500
   \<and> map_sum id completed_total
        (get_progress (Some (with_progress (with_progress full_progress lesson_one) lesson_one))
           ''u1'') = Inr 500"
proof -
  obtain s1 where s1: "update_progress (Some full_progress) lesson_one
      = Inr (s1, Some (with_progress full_progress lesson_one))"
    using update_progress_Some by blast
  obtain s2 where s2: "update_progress (Some (with_progress full_progress lesson_one)) lesson_one
      = Inr (s2, Some (with_progress (with_progress full_progress lesson_one) lesson_one))"
    using update_progress_Some by blast
  have l2: "length (collections (with_progress (with_progress full_progress lesson_one) lesson_one)
        ''progress'') = 502"
    by (simp add: with_progress_twice full_progress_length)
  obtain r0 where r0: "get_progress (Some full_progress) ''u1'' = Inr r0"
      "completed_total r0 = total_completed
           (take 500 (filter (doc_matches [(''user_id'', PStr ''u1'')])
              (collections full_progress ''progress'')))"
    using get_progress_Some by blast
  obtain r2 where r2: "get_progress
         (Some (with_progress (with_progress full_progress lesson_one) lesson_one)) ''u1'' = Inr r2"
      "completed_total r2 = total_completed
           (take 500 (filter (doc_matches [(''user_id'', PStr ''u1'')])
              (collections (with_progress (with_progress full_progress lesson_one) lesson_one)
                 ''progress'')))"
    using get_progress_Some by blast
  have c0: "completed_total r0 = 500"
    by (simp add: r0(2) full_progress_filter full_progress_length full_progress_total)
  have "take 500 (filter (doc_matches [(''user_id'', PStr ''u1'')])
            (collections (with_progress (with_progress full_progress lesson_one) lesson_one)
               ''progress''))
         = take 500 (filter (doc_matches [(''user_id'', PStr ''u1'')])
            (collections full_progress ''progress''))"
    by (rule count_capped) (simp add: full_progress_filter full_progress_length)
  then have c2: "completed_total r2 = 500"
    by (simp add: r2(2) full_progress_filter full_progress_length full_progress_total)
  from s1 s2 l2 r0(1) r2(1) c0 c2 show ?thesis by (simp add: full_progress_length)
qed

end
